theory Spec2Isabelle
  imports Main
begin

section \<open>Python values, exceptions and string helpers\<close>

text \<open>
  The script \<^verbatim>\<open>utils.py\<close> sequences calls into boto3 (S3 and Transcribe), the local
  file system, \<^verbatim>\<open>json\<close>, \<^verbatim>\<open>re\<close>, \<^verbatim>\<open>time\<close> and \<^verbatim>\<open>logging\<close>. The embedding keeps the
  control flow of the three functions as it is written and makes every effect explicit:
  each external call, each log call and each sleep is appended to a trace, every raise is
  a value, and the two \<^verbatim>\<open>while True\<close> loops are partial functions in the option monad,
  where \<open>None\<close> means that the loop does not return.

  Strings are \<open>char list\<close>, one \<open>char\<close> for one code point below 256.
\<close>

datatype pyval =
    PNone
  | PBool bool
  | PInt int
  | PFloat int int
  | PStr string
  | PList "pyval list"
  | PDict "(string \<times> pyval) list"

datatype pykey = KStr string | KInt int

text \<open>
  An external call (boto3, \<^verbatim>\<open>open\<close>, \<^verbatim>\<open>json.loads\<close>) fails either with an exception that
  derives from \<^verbatim>\<open>Exception\<close>, of which the code only ever reads \<^verbatim>\<open>str(e)\<close>, or with a
  \<^verbatim>\<open>BaseException\<close> such as \<^verbatim>\<open>KeyboardInterrupt\<close>, which \<^verbatim>\<open>except Exception\<close> lets through
  and a bare \<^verbatim>\<open>except:\<close> catches.
\<close>

datatype ext_error = ExtException string | ExtInterrupt

datatype exn =
    External ext_error
  | KeyError pykey
  | IndexError
  | TypeError
  | RuntimeError

text \<open>\<^verbatim>\<open>xs[i]\<close> on a sequence: a negative index counts from the end, \<open>None\<close> stands
  for the IndexError.\<close>

definition py_index :: "'a list \<Rightarrow> int \<Rightarrow> 'a option" where
  "py_index xs i =
     (if 0 \<le> i \<and> i < int (length xs) then Some (xs ! nat i)
      else if i < 0 \<and> - int (length xs) \<le> i then Some (xs ! nat (int (length xs) + i))
      else None)"

text \<open>Subscription \<^verbatim>\<open>v[k]\<close> on a value that came out of JSON or out of a boto3 response.\<close>

fun py_getitem :: "pyval \<Rightarrow> pykey \<Rightarrow> exn + pyval" where
  "py_getitem (PDict kvs) (KStr k) =
     (case map_of kvs k of Some v \<Rightarrow> Inr v | None \<Rightarrow> Inl (KeyError (KStr k)))"
| "py_getitem (PDict kvs) (KInt i) = Inl (KeyError (KInt i))"
| "py_getitem (PList xs) (KInt i) =
     (case py_index xs i of Some v \<Rightarrow> Inr v | None \<Rightarrow> Inl IndexError)"
| "py_getitem (PStr s) (KInt i) =
     (case py_index s i of Some c \<Rightarrow> Inr (PStr [c]) | None \<Rightarrow> Inl IndexError)"
| "py_getitem _ _ = Inl TypeError"

text \<open>\<^verbatim>\<open>s.split(c)\<close> for a separator of one character: never empty, one piece more than
  there are separators.\<close>

fun split_on :: "char \<Rightarrow> string \<Rightarrow> string list" where
  "split_on c [] = [[]]"
| "split_on c (x # xs) =
     (if x = c then [] # split_on c xs
      else (case split_on c xs of p # ps \<Rightarrow> (x # p) # ps | [] \<Rightarrow> [[x]]))"

text \<open>\<^verbatim>\<open>str(n)\<close> for an integer.\<close>

function str_digits :: "int \<Rightarrow> string" where
  "str_digits n =
     (if n < 10 then [char_of (48 + n)]
      else str_digits (n div 10) @ [char_of (48 + n mod 10)])"
  by pat_completeness auto

termination
  by (relation "measure nat") auto

declare str_digits.simps [simp del]

definition str_int :: "int \<Rightarrow> string" where
  "str_int i = (if i < 0 then CHR ''-'' # str_digits (- i) else str_digits i)"

text \<open>\<^verbatim>\<open>\w\<close> on a Python 3 string, for the code points below 256: the ASCII letters
  and digits, the underscore, and the letters and numeric characters of Latin-1 (all of
  170 to 255 that \<^verbatim>\<open>str.isalnum\<close> accepts, which leaves out the multiplication and the
  division sign).\<close>

definition word_char :: "char \<Rightarrow> bool" where
  "word_char c =
     (let n = (of_char c :: nat)
      in (48 \<le> n \<and> n \<le> 57) \<or> (65 \<le> n \<and> n \<le> 90) \<or> (97 \<le> n \<and> n \<le> 122) \<or> n = 95
         \<or> n = 170 \<or> n = 178 \<or> n = 179 \<or> n = 181 \<or> n = 185 \<or> n = 186
         \<or> (188 \<le> n \<and> n \<le> 190)
         \<or> (192 \<le> n \<and> n \<le> 214) \<or> (216 \<le> n \<and> n \<le> 246) \<or> (248 \<le> n \<and> n \<le> 255))"

text \<open>
  \<^verbatim>\<open>re.findall(r'\((\w+)\)', s)\<close>: scanning from the left, every non-overlapping
  occurrence of an opening parenthesis, a non-empty maximal run of word characters and a
  closing parenthesis contributes the run; the scan resumes behind the closing
  parenthesis after a match and one character further otherwise.
\<close>

function findall_paren_word :: "string \<Rightarrow> string list" where
  "findall_paren_word [] = []"
| "findall_paren_word (c # cs) =
     (if c = CHR ''('' \<and> takeWhile word_char cs \<noteq> []
         \<and> (case dropWhile word_char cs of d # _ \<Rightarrow> d = CHR '')'' | [] \<Rightarrow> False)
      then takeWhile word_char cs # findall_paren_word (tl (dropWhile word_char cs))
      else findall_paren_word cs)"
  by pat_completeness auto

termination
proof (relation "measure length")
  show "wf (measure length)" by simp
next
  fix c :: char and cs :: string
  have "length (tl (dropWhile word_char cs)) \<le> length (dropWhile word_char cs)"
    by simp
  also have "\<dots> \<le> length cs"
    by (rule length_dropWhile_le)
  finally show "(tl (dropWhile word_char cs), c # cs) \<in> measure length"
    by simp
next
  fix c :: char and cs :: string
  show "(cs, c # cs) \<in> measure length" by simp
qed

section \<open>Effects\<close>

datatype level = DEBUG | INFO | WARNING | CRITICAL

record job_request =
  TranscriptionJobName :: string
  LanguageCode :: string
  MediaFormat :: string
  Settings :: "(string \<times> pyval) list"
  MediaFileUri :: string
  OutputBucketName :: string
  OutputKey :: string

text \<open>
  One event per effect, in the order the code performs them. \<open>Log l msg args\<close> is a call
  \<^verbatim>\<open>logging.<l>(msg, *args)\<close>; \<open>UploadFile file bucket key\<close>, \<open>DownloadFile bucket key path\<close>
  and \<open>CreateBucket bucket region\<close> carry the arguments of the S3 call.
\<close>

datatype event =
    CreateBucket string string
  | UploadFile string string string
  | StartTranscriptionJob job_request
  | DownloadFile string string string
  | OpenRead string
  | GetVocabulary string
  | CreateVocabulary "(string \<times> pyval) list"
  | Log level pyval "pyval list"
  | Sleep nat

text \<open>
  The world: what has happened so far, and how many download attempts and
  \<^verbatim>\<open>get_vocabulary\<close> calls the provider has answered, so that a provider can answer the
  k-th call differently from the first.
\<close>

record world =
  trace :: "event list"
  downloads :: nat
  polls :: nat

definition emit :: "event \<Rightarrow> world \<Rightarrow> world" where
  "emit e w = w\<lparr>trace := trace w @ [e]\<rparr>"

text \<open>
  What \<^verbatim>\<open>upload_and_retrieve\<close> calls: the S3 client and resource and the Transcribe
  client that boto3 builds from the credentials (their construction is taken to
  succeed), \<^verbatim>\<open>open\<close> with the lines of the file, \<^verbatim>\<open>json.loads\<close>, and
  \<^verbatim>\<open>int(time.time())\<close>. \<open>None\<close> is a call that returns.
\<close>

record provider =
  create_bucket :: "string \<Rightarrow> string \<Rightarrow> ext_error option"
  upload_file :: "string \<Rightarrow> string \<Rightarrow> string \<Rightarrow> ext_error option"
  start_transcription_job :: "job_request \<Rightarrow> ext_error option"
  download_file :: "nat \<Rightarrow> string \<Rightarrow> string \<Rightarrow> string \<Rightarrow> ext_error option"
  open_lines :: "string \<Rightarrow> ext_error + string list"
  json_loads :: "string \<Rightarrow> ext_error + pyval"
  time_time :: int

text \<open>The \<^verbatim>\<open>transcribe_client\<close> argument of the two vocabulary functions.\<close>

record transcribe_client =
  client_create_vocabulary :: "(string \<times> pyval) list \<Rightarrow> ext_error + pyval"
  client_get_vocabulary :: "nat \<Rightarrow> string \<Rightarrow> ext_error + pyval"

section \<open>upload_and_retrieve\<close>

text \<open>Lines 33 to 41: create the bucket; an \<^verbatim>\<open>Exception\<close> is handled by logging
  \<^verbatim>\<open>re.findall(...)[0]\<close> of its message.\<close>

definition ensure_bucket :: "provider \<Rightarrow> string \<Rightarrow> world \<Rightarrow> (exn + unit) \<times> world" where
  "ensure_bucket env bucket_name w =
     (let w1 = emit (CreateBucket bucket_name ''eu-west-2'') w
      in case create_bucket env bucket_name ''eu-west-2'' of
           None \<Rightarrow> (Inr (), w1)
         | Some ExtInterrupt \<Rightarrow> (Inl (External ExtInterrupt), w1)
         | Some (ExtException msg) \<Rightarrow>
             (case findall_paren_word msg of
                [] \<Rightarrow> (Inl IndexError, w1)
              | tok # _ \<Rightarrow> (Inr (), emit (Log WARNING (PStr tok) []) w1)))"

text \<open>Line 44: upload under the key \<^verbatim>\<open>file.split("\\")[-1]\<close>.\<close>

definition upload_key :: "string \<Rightarrow> string" where
  "upload_key file = last (split_on (CHR 0x5C) file)"

definition upload_step :: "provider \<Rightarrow> string \<Rightarrow> string \<Rightarrow> world \<Rightarrow> (exn + unit) \<times> world" where
  "upload_step env bucket_name file w =
     (let w1 = emit (UploadFile file bucket_name (upload_key file)) w
      in case upload_file env file bucket_name (upload_key file) of
           None \<Rightarrow> (Inr (), w1)
         | Some e \<Rightarrow> (Inl (External e), w1))"

text \<open>Lines 49 to 54: the local \<^verbatim>\<open>settings\<close> dictionary.\<close>

definition build_settings :: "string option \<Rightarrow> world \<Rightarrow> (string \<times> pyval) list \<times> world" where
  "build_settings vocabulary w =
     (case vocabulary of
        Some v \<Rightarrow>
          (let settings = [(''VocabularyName'', PStr v)]
           in (settings, emit (Log DEBUG (PDict settings) []) w))
      | None \<Rightarrow> ([], w))"

text \<open>Lines 57 to 67: the keyword arguments of \<^verbatim>\<open>start_transcription_job\<close>. The call is
  written with the literal \<^verbatim>\<open>Settings={}\<close>.\<close>

definition transcription_request :: "provider \<Rightarrow> string \<Rightarrow> string \<Rightarrow> job_request" where
  "transcription_request env bucket_name file =
     \<lparr> TranscriptionJobName =
         ''transcribing_'' @ hd (split_on (CHR ''.'') file) @ ''_'' @ str_int (time_time env),
       LanguageCode = ''en-US'',
       MediaFormat = ''flac'',
       Settings = [],
       MediaFileUri = ''s3://'' @ bucket_name @ ''/'' @ file,
       OutputBucketName = bucket_name,
       OutputKey = hd (split_on (CHR ''.'') file) @ ''.txt'' \<rparr>"

definition submit_job ::
  "provider \<Rightarrow> string \<Rightarrow> string \<Rightarrow> string option \<Rightarrow> world \<Rightarrow> (exn + unit) \<times> world" where
  "submit_job env bucket_name file vocabulary w =
     (let (settings, w1) = build_settings vocabulary w;
          req = transcription_request env bucket_name file;
          w2 = emit (StartTranscriptionJob req) w1
      in case start_transcription_job env req of
           None \<Rightarrow> (Inr (), w2)
         | Some e \<Rightarrow> (Inl (External e), w2))"

text \<open>Lines 71 to 78: one pass through the body of the completion-wait loop, \<open>True\<close> when
  the download returned and the loop breaks.\<close>

definition download_attempt :: "provider \<Rightarrow> string \<Rightarrow> string \<Rightarrow> world \<Rightarrow> bool \<times> world" where
  "download_attempt env bucket_name file w =
     (let key = hd (split_on (CHR ''.'') file) @ ''.txt'';
          path = hd (split_on (CHR ''.'') file) @ ''.txt'';
          w1 = (emit (DownloadFile bucket_name key path) w)\<lparr>downloads := Suc (downloads w)\<rparr>
      in case download_file env (downloads w) bucket_name key path of
           None \<Rightarrow> (True, w1)
         | Some e \<Rightarrow>
             (False, emit (Sleep 1) (emit (Log INFO (PStr ''Waiting for transcription...'') []) w1)))"

partial_function (option) download_loop ::
  "provider \<Rightarrow> string \<Rightarrow> string \<Rightarrow> world \<Rightarrow> world option" where
  "download_loop env bucket_name file w =
     (case download_attempt env bucket_name file w of
        (done, w') \<Rightarrow> if done then Some w' else download_loop env bucket_name file w')"

declare download_loop.simps [code]

text \<open>The first \<open>k\<close> passes of the loop, stopping early at a pass that breaks.\<close>

fun download_passes :: "nat \<Rightarrow> provider \<Rightarrow> string \<Rightarrow> string \<Rightarrow> world \<Rightarrow> bool \<times> world" where
  "download_passes 0 env bucket_name file w = (False, w)"
| "download_passes (Suc k) env bucket_name file w =
     (case download_attempt env bucket_name file w of
        (done, w') \<Rightarrow> if done then (True, w') else download_passes k env bucket_name file w')"

text \<open>Lines 81 to 87: read the local file line by line, parse, and subscript.\<close>

definition read_transcript :: "provider \<Rightarrow> string \<Rightarrow> world \<Rightarrow> (exn + pyval) \<times> world" where
  "read_transcript env file w =
     (let path = hd (split_on (CHR ''.'') file) @ ''.txt'';
          w1 = emit (OpenRead path) w
      in case open_lines env path of
           Inl e \<Rightarrow> (Inl (External e), w1)
         | Inr lines \<Rightarrow>
             (let out = foldl (\<lambda>out line. out @ line) [] lines
              in case json_loads env out of
                   Inl e \<Rightarrow> (Inl (External e), w1)
                 | Inr doc \<Rightarrow>
                     (case py_getitem doc (KStr ''results'') of
                        Inl e \<Rightarrow> (Inl e, w1)
                      | Inr results \<Rightarrow>
                          (case py_getitem results (KStr ''transcripts'') of
                             Inl e \<Rightarrow> (Inl e, w1)
                           | Inr transcripts \<Rightarrow>
                               (case py_getitem transcripts (KInt 0) of
                                  Inl e \<Rightarrow> (Inl e, w1)
                                | Inr first \<Rightarrow>
                                    (py_getitem first (KStr ''transcript''), w1))))))"

definition upload_and_retrieve ::
  "provider \<Rightarrow> string \<Rightarrow> string \<Rightarrow> string option \<Rightarrow> world \<Rightarrow> ((exn + pyval) \<times> world) option" where
  "upload_and_retrieve env bucket_name file vocabulary w =
     (case ensure_bucket env bucket_name w of
        (Inl e, w1) \<Rightarrow> Some (Inl e, w1)
      | (Inr _, w1) \<Rightarrow>
          (case upload_step env bucket_name file w1 of
             (Inl e, w2) \<Rightarrow> Some (Inl e, w2)
           | (Inr _, w2) \<Rightarrow>
               (case submit_job env bucket_name file vocabulary w2 of
                  (Inl e, w3) \<Rightarrow> Some (Inl e, w3)
                | (Inr _, w3) \<Rightarrow>
                    (case download_loop env bucket_name file w3 of
                       None \<Rightarrow> None
                     | Some w4 \<Rightarrow> Some (read_transcript env file w4)))))"

section \<open>create_vocabulary and wait_for_vocabulary\<close>

text \<open>Lines 108 to 112: the keyword arguments of the creation call.\<close>

definition vocab_args ::
  "string \<Rightarrow> string \<Rightarrow> string list option \<Rightarrow> string option \<Rightarrow> (string \<times> pyval) list" where
  "vocab_args vocabulary_name language_code phrases table_uri =
     (let args = [(''VocabularyName'', PStr vocabulary_name),
                  (''LanguageCode'', PStr language_code)]
      in case phrases of
           Some ps \<Rightarrow> args @ [(''Phrases'', PList (map PStr ps))]
         | None \<Rightarrow>
             (case table_uri of
                Some uri \<Rightarrow> args @ [(''VocabularyFileUri'', PStr uri)]
              | None \<Rightarrow> args))"

text \<open>Lines 107 to 120: the \<^verbatim>\<open>try\<close> block covers the call and the log line that
  subscripts the response; the bare \<^verbatim>\<open>except\<close> logs and raises again.\<close>

definition create_vocabulary ::
  "string \<Rightarrow> string \<Rightarrow> transcribe_client \<Rightarrow> string list option \<Rightarrow> string option \<Rightarrow> world
     \<Rightarrow> (exn + pyval) \<times> world" where
  "create_vocabulary vocabulary_name language_code client phrases table_uri w =
     (let args = vocab_args vocabulary_name language_code phrases table_uri;
          w1 = emit (CreateVocabulary args) w;
          failed = emit (Log INFO (PStr ''Couldn't create custom vocabulary %s.'')
                     [PStr vocabulary_name]) w1
      in case client_create_vocabulary client args of
           Inl e \<Rightarrow> (Inl (External e), failed)
         | Inr response \<Rightarrow>
             (case py_getitem response (KStr ''VocabularyName'') of
                Inl e \<Rightarrow> (Inl e, failed)
              | Inr name \<Rightarrow>
                  (Inr response,
                   emit (Log INFO (PStr ''Created custom vocabulary %s.'') [name]) w1)))"

datatype loop_ctl = Break | Continue | Raise exn

text \<open>Lines 124 to 134: one pass through the body of the loop of
  \<^verbatim>\<open>wait_for_vocabulary\<close>. In the \<^verbatim>\<open>FAILED\<close> branch the formatted state is the string
  it has just been compared with.\<close>

definition poll_vocabulary :: "transcribe_client \<Rightarrow> string \<Rightarrow> world \<Rightarrow> loop_ctl \<times> world" where
  "poll_vocabulary client vocabulary_name w =
     (let w1 = (emit (GetVocabulary vocabulary_name) w)\<lparr>polls := Suc (polls w)\<rparr>
      in case client_get_vocabulary client (polls w) vocabulary_name of
           Inl e \<Rightarrow> (Raise (External e), w1)
         | Inr response \<Rightarrow>
             (case py_getitem response (KStr ''VocabularyState'') of
                Inl e \<Rightarrow> (Raise e, w1)
              | Inr state \<Rightarrow>
                  (let w2 = emit (Log INFO state []) w1
                   in if state = PStr ''READY'' then (Break, w2)
                      else if state = PStr ''FAILED'' then
                        (Raise RuntimeError,
                         emit (Log CRITICAL
                                 (PStr (''Vocabulary '' @ vocabulary_name @ '' '' @ ''FAILED'')) [])
                           (emit (Log CRITICAL response []) w2))
                      else if state = PStr ''PENDING'' then (Continue, emit (Sleep 10) w2)
                      else (Continue, w2))))"

partial_function (option) wait_for_vocabulary ::
  "transcribe_client \<Rightarrow> string \<Rightarrow> world \<Rightarrow> ((exn + unit) \<times> world) option" where
  "wait_for_vocabulary client vocabulary_name w =
     (case poll_vocabulary client vocabulary_name w of
        (Break, w') \<Rightarrow> Some (Inr (), w')
      | (Raise e, w') \<Rightarrow> Some (Inl e, w')
      | (Continue, w') \<Rightarrow> wait_for_vocabulary client vocabulary_name w')"

declare wait_for_vocabulary.simps [code]

text \<open>The first \<open>k\<close> passes of that loop, stopping early at a pass that leaves it.\<close>

fun poll_passes :: "nat \<Rightarrow> transcribe_client \<Rightarrow> string \<Rightarrow> world \<Rightarrow> loop_ctl \<times> world" where
  "poll_passes 0 client vocabulary_name w = (Continue, w)"
| "poll_passes (Suc k) client vocabulary_name w =
     (case poll_vocabulary client vocabulary_name w of
        (Continue, w') \<Rightarrow> poll_passes k client vocabulary_name w'
      | (Break, w') \<Rightarrow> (Break, w')
      | (Raise e, w') \<Rightarrow> (Raise e, w'))"

section \<open>Notions of the specification\<close>

text \<open>The stem of a file name, in the words of the glossary: the portion of the name
  preceding its first period.\<close>

definition stem_spec :: "string \<Rightarrow> string" where
  "stem_spec f = takeWhile (\<lambda>c. c \<noteq> CHR ''.'') f"

text \<open>The base name of a path, in the words of the specification: the component behind
  the last path separator, for a given notion of separator.\<close>

definition basename_spec :: "(char \<Rightarrow> bool) \<Rightarrow> string \<Rightarrow> string" where
  "basename_spec sep path = rev (takeWhile (\<lambda>c. \<not> sep c) (rev path))"

definition posix_sep :: "char \<Rightarrow> bool" where
  "posix_sep c = (c = CHR ''/'')"

definition windows_sep :: "char \<Rightarrow> bool" where
  "windows_sep c = (c = CHR ''/'' \<or> c = CHR 0x5C)"

definition backslash_sep :: "char \<Rightarrow> bool" where
  "backslash_sep c = (c = CHR 0x5C)"

text \<open>What one failed pass of the completion-wait loop adds to the trace: the download
  attempt, the log line and the sleep of one second.\<close>

definition retry_events :: "string \<Rightarrow> string \<Rightarrow> event list" where
  "retry_events bucket_name file =
     [DownloadFile bucket_name (stem_spec file @ ''.txt'') (stem_spec file @ ''.txt''),
      Log INFO (PStr ''Waiting for transcription...'') [],
      Sleep 1]"

text \<open>A vocabulary state that is none of the three the loop recognises, and a client
  whose k-th \<^verbatim>\<open>get_vocabulary\<close> response carries such a state.\<close>

definition unrecognized_state :: "pyval \<Rightarrow> bool" where
  "unrecognized_state state =
     (state \<noteq> PStr ''READY'' \<and> state \<noteq> PStr ''FAILED'' \<and> state \<noteq> PStr ''PENDING'')"

definition answers_unrecognized :: "transcribe_client \<Rightarrow> string \<Rightarrow> nat \<Rightarrow> bool" where
  "answers_unrecognized client vocabulary_name k =
     (case client_get_vocabulary client k vocabulary_name of
        Inl e \<Rightarrow> False
      | Inr response \<Rightarrow>
          (case py_getitem response (KStr ''VocabularyState'') of
             Inl e \<Rightarrow> False
           | Inr state \<Rightarrow> unrecognized_state state))"

section \<open>Simulated providers\<close>

text \<open>
  Concrete providers for running the functions: the bucket creation answers with
  \<open>create_result\<close>, the output object appears after \<open>n\<close> failed downloads, the
  downloaded file has the given lines, and \<^verbatim>\<open>json.loads\<close> knows the one document of the
  round-trip property.
\<close>

definition simulated_provider :: "ext_error option \<Rightarrow> nat \<Rightarrow> string list \<Rightarrow> provider" where
  \<open>simulated_provider create_result n lines =
     \<lparr> create_bucket = (\<lambda>_ _. create_result),
       upload_file = (\<lambda>_ _ _. None),
       start_transcription_job = (\<lambda>_. None),
       download_file = (\<lambda>k _ _ _.
         if k < n
         then Some (ExtException
                ''An error occurred (404) when calling the HeadObject operation: Not Found'')
         else None),
       open_lines = (\<lambda>_. Inr lines),
       json_loads = (\<lambda>s.
         if s = ''{"results":{"transcripts":[{"transcript":"hello world"}]}}''
         then Inr (PDict [(''results'',
                PDict [(''transcripts'', PList [PDict [(''transcript'', PStr ''hello world'')]])])])
         else Inl (ExtException ''Expecting value: line 1 column 1 (char 0)'')),
       time_time = 1700000000 \<rparr>\<close>

text \<open>A Transcribe client whose k-th \<^verbatim>\<open>get_vocabulary\<close> response carries the k-th
  state of a script and a fixed state once the script is used up, and whose
  \<^verbatim>\<open>create_vocabulary\<close> answers with a fixed result.\<close>

definition scripted_client :: "pyval list \<Rightarrow> pyval \<Rightarrow> ext_error + pyval \<Rightarrow> transcribe_client" where
  "scripted_client states final created =
     \<lparr> client_create_vocabulary = (\<lambda>_. created),
       client_get_vocabulary = (\<lambda>k name.
         Inr (PDict [(''VocabularyName'', PStr name),
                     (''VocabularyState'', if k < length states then states ! k else final)])) \<rparr>"

definition world0 :: world where
  "world0 = \<lparr> trace = [], downloads = 0, polls = 0 \<rparr>"

section \<open>Helper lemmas\<close>

lemma split_on_not_Nil: "split_on c s \<noteq> []"
  by (induction s) (auto split: list.splits)

lemma hd_split_on: "hd (split_on c s) = takeWhile (\<lambda>x. x \<noteq> c) s"
  by (induction s) (auto split: list.splits simp: split_on_not_Nil)

lemma split_on_no_sep: "c \<notin> set s \<Longrightarrow> split_on c s = [s]"
  by (induction s) auto

lemma split_on_sep_two: "c \<in> set s \<Longrightarrow> \<exists>p q qs. split_on c s = p # q # qs"
proof (induction s)
  case Nil
  then show ?case by simp
next
  case (Cons x xs)
  show ?case
  proof (cases "x = c")
    case True
    then show ?thesis using split_on_not_Nil[of c xs]
      by (cases "split_on c xs") auto
  next
    case False
    with Cons.prems have "c \<in> set xs" by simp
    then obtain p q qs where "split_on c xs = p # q # qs"
      using Cons.IH by blast
    with False show ?thesis by simp
  qed
qed

lemma last_split_on: "last (split_on c s) = rev (takeWhile (\<lambda>x. x \<noteq> c) (rev s))"
proof (induction s)
  case Nil
  show ?case by simp
next
  case (Cons x xs)
  show ?case
  proof (cases "c \<in> set xs")
    case True
    then obtain p q qs where sp: "split_on c xs = p # q # qs"
      using split_on_sep_two by blast
    have "last (split_on c (x # xs)) = last (split_on c xs)"
      using sp by simp
    moreover have "takeWhile (\<lambda>x. x \<noteq> c) (rev xs @ [x]) = takeWhile (\<lambda>x. x \<noteq> c) (rev xs)"
      using True by (auto simp: takeWhile_append)
    ultimately show ?thesis using Cons.IH by simp
  next
    case False
    then have sp: "split_on c xs = [xs]" by (rule split_on_no_sep)
    have all: "\<forall>y\<in>set (rev xs). y \<noteq> c" using False by auto
    show ?thesis
    proof (cases "x = c")
      case True
      then show ?thesis using sp all by (simp add: takeWhile_append)
    next
      case False
      then show ?thesis using sp all by (simp add: takeWhile_append)
    qed
  qed
qed


section \<open>Upload key and output name\<close>

text \<open>
  C5 (as amended). The key of the upload is the part of the path behind its last
  backslash, the whole path when it has none: the base name for the backslash as the
  only separator. A forward slash does not separate.
\<close>

theorem upload_key_after_last_backslash:
  "upload_step env bucket_name file w =
     ((case upload_file env file bucket_name (basename_spec backslash_sep file) of
         None \<Rightarrow> Inr () | Some e \<Rightarrow> Inl (External e)),
      emit (UploadFile file bucket_name (basename_spec backslash_sep file)) w)"
  by (simp add: upload_step_def upload_key_def last_split_on basename_spec_def
      backslash_sep_def split: option.splits)

text \<open>
  C5 (as stated) fails for a path with a forward slash: the file is uploaded under the
  whole path, which is not its base name, under the POSIX or the Windows notion of a
  path separator.
\<close>

theorem upload_key_forward_slash_counterexample:
  "trace (snd (upload_step (simulated_provider None 0 []) ''bucket'' ''dir/test.flac'' world0))
     = [UploadFile ''dir/test.flac'' ''bucket'' ''dir/test.flac'']
   \<and> basename_spec posix_sep ''dir/test.flac'' = ''test.flac''
   \<and> basename_spec windows_sep ''dir/test.flac'' = ''test.flac''
   \<and> upload_key ''dir/test.flac'' \<noteq> basename_spec posix_sep ''dir/test.flac''
   \<and> upload_key ''dir/test.flac'' \<noteq> basename_spec windows_sep ''dir/test.flac''"
  by (simp add: upload_step_def upload_key_def simulated_provider_def world0_def emit_def
      basename_spec_def posix_sep_def windows_sep_def)

text \<open>
  C2. The output key of the job, the key and the local path of every download attempt
  and the path that is opened for reading are all the stem of the input file name (the
  part before its first period, the whole name when it has none) followed by
  \<^verbatim>\<open>.txt\<close>; file names with the same stem get the same key and path.
\<close>

theorem output_key_and_path_from_stem:
  "OutputKey (transcription_request env bucket_name file) = stem_spec file @ ''.txt''
   \<and> (\<exists>rest. trace (snd (download_attempt env bucket_name file w))
          = trace w @ DownloadFile bucket_name (stem_spec file @ ''.txt'')
                        (stem_spec file @ ''.txt'') # rest)
   \<and> trace (snd (read_transcript env file w)) = trace w @ [OpenRead (stem_spec file @ ''.txt'')]
   \<and> (\<forall>p q. file = p @ CHR ''.'' # q \<and> CHR ''.'' \<notin> set p \<longrightarrow> stem_spec file = p)
   \<and> (stem_spec file = stem_spec file' \<longrightarrow>
        OutputKey (transcription_request env bucket_name file)
          = OutputKey (transcription_request env bucket_name file')
        \<and> hd (drop (length (trace w)) (trace (snd (download_attempt env bucket_name file w))))
          = hd (drop (length (trace w)) (trace (snd (download_attempt env bucket_name file' w)))))"
proof -
  have key: "OutputKey (transcription_request env bucket_name f) = stem_spec f @ ''.txt''" for f
    by (simp add: transcription_request_def hd_split_on stem_spec_def)
  have dl: "\<exists>rest. trace (snd (download_attempt env bucket_name f w))
          = trace w @ DownloadFile bucket_name (stem_spec f @ ''.txt'')
                        (stem_spec f @ ''.txt'') # rest" for f
    by (simp add: download_attempt_def Let_def hd_split_on stem_spec_def emit_def
        split: option.splits)
  have rd: "trace (snd (read_transcript env file w))
          = trace w @ [OpenRead (stem_spec file @ ''.txt'')]"
    by (simp add: read_transcript_def Let_def hd_split_on stem_spec_def emit_def
        split: sum.splits)
  have st: "\<forall>p q. file = p @ CHR ''.'' # q \<and> CHR ''.'' \<notin> set p \<longrightarrow> stem_spec file = p"
    by (auto simp: stem_spec_def takeWhile_append)
  have hd_dl: "hd (drop (length (trace w)) (trace (snd (download_attempt env bucket_name f w))))
          = DownloadFile bucket_name (stem_spec f @ ''.txt'') (stem_spec f @ ''.txt'')" for f
    using dl[of f] by auto
  show ?thesis
    using key dl rd st hd_dl by simp
qed

theorem output_key_and_path_from_stem_witness:
  "stem_spec ''test_final.flac'' = stem_spec ''test_final.v2.wav''
   \<and> ''test_final.flac'' = ''test_final'' @ CHR ''.'' # ''flac'' \<and> CHR ''.'' \<notin> set ''test_final''
   \<and> OutputKey (transcription_request (simulated_provider None 0 []) ''bucket'' ''test_final.flac'')
       = ''test_final.txt''
   \<and> OutputKey (transcription_request (simulated_provider None 0 []) ''bucket'' ''test_final.v2.wav'')
       = ''test_final.txt''
   \<and> trace (snd (read_transcript (simulated_provider None 0 []) ''test_final.flac'' world0))
       = [OpenRead ''test_final.txt'']"
  using output_key_and_path_from_stem
    [of "simulated_provider None 0 []" "''bucket''" "''test_final.flac''" world0
        "''test_final.v2.wav''"]
  by (auto simp: stem_spec_def world0_def)

lemma upload_key_eq_iff: "upload_key file = file \<longleftrightarrow> CHR 0x5C \<notin> set file"
proof -
  have "upload_key file = file \<longleftrightarrow> takeWhile (\<lambda>x. x \<noteq> CHR 0x5C) (rev file) = rev file"
    by (simp add: upload_key_def last_split_on rev_swap)
  also have "\<dots> \<longleftrightarrow> (\<forall>x\<in>set (rev file). x \<noteq> CHR 0x5C)"
    by (rule takeWhile_eq_all_conv)
  finally show ?thesis by auto
qed

section \<open>Media URI and job settings\<close>

text \<open>
  C9 (as amended). The media URI of the job is \<^verbatim>\<open>s3://<bucket_name>/<file>\<close> with the
  full input path, while the file is uploaded under \<^verbatim>\<open>upload_key file\<close>. Whenever the
  path contains a backslash the URI differs from the location of the uploaded object;
  for a path without a backslash the two are the same.
\<close>

theorem media_uri_from_full_path:
  "MediaFileUri (transcription_request env bucket_name file) = ''s3://'' @ bucket_name @ ''/'' @ file
   \<and> snd (upload_step env bucket_name file w) = emit (UploadFile file bucket_name (upload_key file)) w
   \<and> (CHR 0x5C \<in> set file \<longrightarrow>
        MediaFileUri (transcription_request env bucket_name file)
          \<noteq> ''s3://'' @ bucket_name @ ''/'' @ upload_key file)
   \<and> (CHR 0x5C \<notin> set file \<longrightarrow>
        MediaFileUri (transcription_request env bucket_name file)
          = ''s3://'' @ bucket_name @ ''/'' @ upload_key file)"
  using upload_key_eq_iff[of "file"]
  by (auto simp: transcription_request_def upload_step_def Let_def split: option.splits)

theorem media_uri_from_full_path_witness:
  "CHR 0x5C \<in> set (''C:'' @ CHR 0x5C # ''audio'' @ CHR 0x5C # ''test.flac'')
   \<and> CHR 0x5C \<notin> set ''test.flac''
   \<and> upload_key (''C:'' @ CHR 0x5C # ''audio'' @ CHR 0x5C # ''test.flac'') = ''test.flac''
   \<and> MediaFileUri (transcription_request (simulated_provider None 0 []) ''bucket''
        (''C:'' @ CHR 0x5C # ''audio'' @ CHR 0x5C # ''test.flac''))
       \<noteq> ''s3://bucket/test.flac''
   \<and> MediaFileUri (transcription_request (simulated_provider None 0 []) ''bucket'' ''test.flac'')
       = ''s3://bucket/test.flac''"
  using media_uri_from_full_path
      [of "simulated_provider None 0 []" "''bucket''"
          "''C:'' @ CHR 0x5C # ''audio'' @ CHR 0x5C # ''test.flac''" world0]
    media_uri_from_full_path
      [of "simulated_provider None 0 []" "''bucket''" "''test.flac''" world0]
  by (auto simp: upload_key_def)

text \<open>
  C9 (as stated) fails for a path whose only separators are forward slashes: position 3
  of \<^verbatim>\<open>dir/test.flac\<close> is a path separator, and the URI that is submitted is the
  location of the uploaded object.
\<close>

theorem media_uri_forward_slash_counterexample:
  "posix_sep (''dir/test.flac'' ! 3) \<and> windows_sep (''dir/test.flac'' ! 3)
   \<and> trace (snd (upload_step (simulated_provider None 0 []) ''bucket'' ''dir/test.flac'' world0))
       = [UploadFile ''dir/test.flac'' ''bucket'' ''dir/test.flac'']
   \<and> MediaFileUri (transcription_request (simulated_provider None 0 []) ''bucket'' ''dir/test.flac'')
       = ''s3://'' @ ''bucket'' @ ''/'' @ upload_key ''dir/test.flac''"
  by (simp add: upload_step_def upload_key_def simulated_provider_def world0_def emit_def
      transcription_request_def posix_sep_def windows_sep_def)

text \<open>
  C1. A run of the job submission with the vocabulary \<^verbatim>\<open>vocabulary_test_18\<close>: the local
  dictionary \<^verbatim>\<open>settings\<close> receives the vocabulary name and is logged, but the request
  that is sent carries empty settings, with language code \<^verbatim>\<open>en-US\<close> and media format
  \<^verbatim>\<open>flac\<close>.
\<close>

theorem settings_literal_empty:
  "submit_job (simulated_provider None 0 []) ''bucket'' ''test_final.flac''
     (Some ''vocabulary_test_18'') world0
   = (Inr (),
      \<lparr> trace =
          [Log DEBUG (PDict [(''VocabularyName'', PStr ''vocabulary_test_18'')]) [],
           StartTranscriptionJob
             \<lparr> TranscriptionJobName = ''transcribing_test_final_1700000000'',
               LanguageCode = ''en-US'',
               MediaFormat = ''flac'',
               Settings = [],
               MediaFileUri = ''s3://bucket/test_final.flac'',
               OutputBucketName = ''bucket'',
               OutputKey = ''test_final.txt'' \<rparr>],
        downloads = 0, polls = 0 \<rparr>)"
  by code_simp

section \<open>The completion-wait loop\<close>

lemma download_attempt_fails:
  assumes "download_file env (downloads w) bucket_name (stem_spec file @ ''.txt'')
             (stem_spec file @ ''.txt'') = Some e"
  shows "download_attempt env bucket_name file w
           = (False, w\<lparr>trace := trace w @ retry_events bucket_name file,
                       downloads := Suc (downloads w)\<rparr>)"
  using assms
  by (simp add: download_attempt_def Let_def hd_split_on stem_spec_def emit_def retry_events_def)

lemma download_attempt_succeeds:
  assumes "download_file env (downloads w) bucket_name (stem_spec file @ ''.txt'')
             (stem_spec file @ ''.txt'') = None"
  shows "download_attempt env bucket_name file w
           = (True, w\<lparr>trace := trace w @ [DownloadFile bucket_name (stem_spec file @ ''.txt'')
                                             (stem_spec file @ ''.txt'')],
                      downloads := Suc (downloads w)\<rparr>)"
  using assms
  by (simp add: download_attempt_def Let_def hd_split_on stem_spec_def emit_def)

lemma download_loop_after_failures:
  assumes "\<forall>k<n. download_file env (downloads w + k) bucket_name (stem_spec file @ ''.txt'')
             (stem_spec file @ ''.txt'') \<noteq> None"
    and "download_file env (downloads w + n) bucket_name (stem_spec file @ ''.txt'')
             (stem_spec file @ ''.txt'') = None"
  shows "download_loop env bucket_name file w
           = Some (w\<lparr>trace := trace w @ concat (replicate n (retry_events bucket_name file))
                          @ [DownloadFile bucket_name (stem_spec file @ ''.txt'')
                               (stem_spec file @ ''.txt'')],
                      downloads := downloads w + n + 1\<rparr>)"
  using assms
proof (induction n arbitrary: w)
  case 0
  then show ?case
    by (subst download_loop.simps) (simp add: download_attempt_succeeds)
next
  case (Suc n)
  let ?w1 = "w\<lparr>trace := trace w @ retry_events bucket_name file,
               downloads := Suc (downloads w)\<rparr>"
  from Suc.prems(1) obtain e where
    e: "download_file env (downloads w) bucket_name (stem_spec file @ ''.txt'')
          (stem_spec file @ ''.txt'') = Some e"
    by (metis add.right_neutral not_None_eq zero_less_Suc)
  have step: "download_loop env bucket_name file w = download_loop env bucket_name file ?w1"
    by (subst download_loop.simps) (simp add: download_attempt_fails[OF e])
  have a: "\<forall>k<n. download_file env (downloads ?w1 + k) bucket_name (stem_spec file @ ''.txt'')
             (stem_spec file @ ''.txt'') \<noteq> None"
    using Suc.prems(1) by (auto dest: spec[where x = "Suc k" for k])
  have b: "download_file env (downloads ?w1 + n) bucket_name (stem_spec file @ ''.txt'')
             (stem_spec file @ ''.txt'') = None"
    using Suc.prems(2) by simp
  show ?case
    unfolding step Suc.IH[OF a b] by simp
qed

lemma download_loop_returns_after_success:
  assumes "download_loop env bucket_name file w = Some w'"
  shows "\<exists>k. download_file env (downloads w + k) bucket_name (stem_spec file @ ''.txt'')
             (stem_spec file @ ''.txt'') = None"
  using assms
proof (rule download_loop.raw_induct[rotated])
  fix loop env b f w v
  assume IH: "\<And>env b f w v. loop env b f w = Some v \<Longrightarrow>
          \<exists>k. download_file env (downloads w + k) b (stem_spec f @ ''.txt'')
             (stem_spec f @ ''.txt'') = None"
    and body: "(case download_attempt env b f w of
          (done, w') \<Rightarrow> if done then Some w' else loop env b f w') = Some v"
  show "\<exists>k. download_file env (downloads w + k) b (stem_spec f @ ''.txt'')
             (stem_spec f @ ''.txt'') = None"
  proof (cases "download_file env (downloads w) b (stem_spec f @ ''.txt'')
             (stem_spec f @ ''.txt'')")
    case None
    then have "download_file env (downloads w + 0) b (stem_spec f @ ''.txt'')
             (stem_spec f @ ''.txt'') = None" by simp
    then show ?thesis by blast
  next
    case (Some e)
    let ?w1 = "w\<lparr>trace := trace w @ retry_events b f,
               downloads := Suc (downloads w)\<rparr>"
    from body have "loop env b f ?w1 = Some v"
      by (simp add: download_attempt_fails[OF Some])
    from IH[OF this] obtain k where
      "download_file env (downloads ?w1 + k) b (stem_spec f @ ''.txt'')
             (stem_spec f @ ''.txt'') = None" by blast
    then have "download_file env (downloads w + Suc k) b (stem_spec f @ ''.txt'')
             (stem_spec f @ ''.txt'') = None" by simp
    then show ?thesis by blast
  qed
qed

lemma download_loop_never_returns:
  assumes "\<forall>k. download_file env (downloads w + k) bucket_name (stem_spec file @ ''.txt'')
             (stem_spec file @ ''.txt'') \<noteq> None"
  shows "download_loop env bucket_name file w = None"
proof (cases "download_loop env bucket_name file w")
  case None
  then show ?thesis .
next
  case (Some w')
  from download_loop_returns_after_success[OF this] assms show ?thesis by blast
qed

lemma download_passes_all_fail:
  assumes "\<forall>k<n. download_file env (downloads w + k) bucket_name (stem_spec file @ ''.txt'')
             (stem_spec file @ ''.txt'') \<noteq> None"
  shows "download_passes n env bucket_name file w
           = (False, w\<lparr>trace := trace w @ concat (replicate n (retry_events bucket_name file)),
                       downloads := downloads w + n\<rparr>)"
  using assms
proof (induction n arbitrary: w)
  case 0
  show ?case by simp
next
  case (Suc n)
  let ?w1 = "w\<lparr>trace := trace w @ retry_events bucket_name file,
               downloads := Suc (downloads w)\<rparr>"
  from Suc.prems obtain e where
    e: "download_file env (downloads w) bucket_name (stem_spec file @ ''.txt'')
          (stem_spec file @ ''.txt'') = Some e"
    by (metis add.right_neutral not_None_eq zero_less_Suc)
  have a: "\<forall>k<n. download_file env (downloads ?w1 + k) bucket_name (stem_spec file @ ''.txt'')
             (stem_spec file @ ''.txt'') \<noteq> None"
    using Suc.prems by (auto dest: spec[where x = "Suc k" for k])
  show ?case
    by (simp add: download_attempt_fails[OF e] Suc.IH[OF a])
qed


text \<open>
  C6. If the download of the output object fails on the next \<open>n\<close> attempts, for whatever
  reason, and succeeds on the attempt after them, the loop returns after exactly \<open>n\<close>
  failed attempts, each followed by the log line and a sleep of one second, and the one
  successful attempt. If the download fails on every attempt the loop does not return:
  any number of passes leaves it running, each pass a failed attempt and a sleep.
\<close>

theorem completion_wait_retries:
  "((\<forall>k<n. download_file env (downloads w + k) bucket_name (stem_spec file @ ''.txt'')
              (stem_spec file @ ''.txt'') \<noteq> None)
     \<and> download_file env (downloads w + n) bucket_name (stem_spec file @ ''.txt'')
              (stem_spec file @ ''.txt'') = None
     \<longrightarrow> download_loop env bucket_name file w
           = Some (w\<lparr>trace := trace w
                       @ concat (replicate n
                           [DownloadFile bucket_name (stem_spec file @ ''.txt'')
                              (stem_spec file @ ''.txt''),
                            Log INFO (PStr ''Waiting for transcription...'') [],
                            Sleep 1])
                       @ [DownloadFile bucket_name (stem_spec file @ ''.txt'')
                            (stem_spec file @ ''.txt'')],
                     downloads := downloads w + n + 1\<rparr>))
   \<and> ((\<forall>k. download_file env (downloads w + k) bucket_name (stem_spec file @ ''.txt'')
              (stem_spec file @ ''.txt'') \<noteq> None)
     \<longrightarrow> download_loop env bucket_name file w = None
         \<and> (\<forall>m. download_passes m env bucket_name file w
               = (False,
                  w\<lparr>trace := trace w
                       @ concat (replicate m
                           [DownloadFile bucket_name (stem_spec file @ ''.txt'')
                              (stem_spec file @ ''.txt''),
                            Log INFO (PStr ''Waiting for transcription...'') [],
                            Sleep 1]),
                     downloads := downloads w + m\<rparr>)))"
proof (intro conjI impI allI)
  assume "(\<forall>k<n. download_file env (downloads w + k) bucket_name (stem_spec file @ ''.txt'')
              (stem_spec file @ ''.txt'') \<noteq> None)
     \<and> download_file env (downloads w + n) bucket_name (stem_spec file @ ''.txt'')
              (stem_spec file @ ''.txt'') = None"
  then show "download_loop env bucket_name file w
           = Some (w\<lparr>trace := trace w
                       @ concat (replicate n
                           [DownloadFile bucket_name (stem_spec file @ ''.txt'')
                              (stem_spec file @ ''.txt''),
                            Log INFO (PStr ''Waiting for transcription...'') [],
                            Sleep 1])
                       @ [DownloadFile bucket_name (stem_spec file @ ''.txt'')
                            (stem_spec file @ ''.txt'')],
                     downloads := downloads w + n + 1\<rparr>)"
    using download_loop_after_failures[of n env w bucket_name "file"]
    by (simp add: retry_events_def)
next
  assume "\<forall>k. download_file env (downloads w + k) bucket_name (stem_spec file @ ''.txt'')
              (stem_spec file @ ''.txt'') \<noteq> None"
  then show "download_loop env bucket_name file w = None"
    by (rule download_loop_never_returns)
next
  fix m
  assume "\<forall>k. download_file env (downloads w + k) bucket_name (stem_spec file @ ''.txt'')
              (stem_spec file @ ''.txt'') \<noteq> None"
  then show "download_passes m env bucket_name file w
               = (False,
                  w\<lparr>trace := trace w
                       @ concat (replicate m
                           [DownloadFile bucket_name (stem_spec file @ ''.txt'')
                              (stem_spec file @ ''.txt''),
                            Log INFO (PStr ''Waiting for transcription...'') [],
                            Sleep 1]),
                     downloads := downloads w + m\<rparr>)"
    using download_passes_all_fail[of m env w bucket_name "file"]
    by (simp add: retry_events_def)
qed

theorem completion_wait_retries_witness:
  "download_file (simulated_provider None 2 []) (downloads world0 + 0) ''bucket''
       (stem_spec ''test_final.flac'' @ ''.txt'') (stem_spec ''test_final.flac'' @ ''.txt'')
     \<noteq> None
   \<and> download_file (simulated_provider None 2 []) (downloads world0 + 1) ''bucket''
       (stem_spec ''test_final.flac'' @ ''.txt'') (stem_spec ''test_final.flac'' @ ''.txt'')
     \<noteq> None
   \<and> download_file (simulated_provider None 2 []) (downloads world0 + 2) ''bucket''
       (stem_spec ''test_final.flac'' @ ''.txt'') (stem_spec ''test_final.flac'' @ ''.txt'')
     = None
   \<and> download_loop (simulated_provider None 2 []) ''bucket'' ''test_final.flac'' world0
       = Some \<lparr> trace =
                  [DownloadFile ''bucket'' ''test_final.txt'' ''test_final.txt'',
                   Log INFO (PStr ''Waiting for transcription...'') [],
                   Sleep 1,
                   DownloadFile ''bucket'' ''test_final.txt'' ''test_final.txt'',
                   Log INFO (PStr ''Waiting for transcription...'') [],
                   Sleep 1,
                   DownloadFile ''bucket'' ''test_final.txt'' ''test_final.txt''],
                downloads = 3, polls = 0 \<rparr>
   \<and> (\<forall>k. download_file
             ((simulated_provider None 0 [])
                \<lparr>download_file := \<lambda>_ _ _ _. Some (ExtException ''Not Found'')\<rparr>)
             (downloads world0 + k) ''bucket''
             (stem_spec ''test_final.flac'' @ ''.txt'') (stem_spec ''test_final.flac'' @ ''.txt'')
           \<noteq> None)
   \<and> download_loop
        ((simulated_provider None 0 [])
           \<lparr>download_file := \<lambda>_ _ _ _. Some (ExtException ''Not Found'')\<rparr>)
        ''bucket'' ''test_final.flac'' world0 = None"
proof -
  have a0: "download_file (simulated_provider None 2 []) (downloads world0 + 0) ''bucket''
       (stem_spec ''test_final.flac'' @ ''.txt'') (stem_spec ''test_final.flac'' @ ''.txt'')
     \<noteq> None"
    by (simp add: simulated_provider_def world0_def)
  have a1: "download_file (simulated_provider None 2 []) (downloads world0 + 1) ''bucket''
       (stem_spec ''test_final.flac'' @ ''.txt'') (stem_spec ''test_final.flac'' @ ''.txt'')
     \<noteq> None"
    by (simp add: simulated_provider_def world0_def)
  have a: "\<forall>k<2. download_file (simulated_provider None 2 []) (downloads world0 + k) ''bucket''
             (stem_spec ''test_final.flac'' @ ''.txt'') (stem_spec ''test_final.flac'' @ ''.txt'')
           \<noteq> None"
    by (simp add: simulated_provider_def world0_def)
  have b: "download_file (simulated_provider None 2 []) (downloads world0 + 2) ''bucket''
             (stem_spec ''test_final.flac'' @ ''.txt'') (stem_spec ''test_final.flac'' @ ''.txt'')
       = None"
    by (simp add: simulated_provider_def world0_def)
  have c: "\<forall>k. download_file
             ((simulated_provider None 0 [])
                \<lparr>download_file := \<lambda>_ _ _ _. Some (ExtException ''Not Found'')\<rparr>)
             (downloads world0 + k) ''bucket''
             (stem_spec ''test_final.flac'' @ ''.txt'') (stem_spec ''test_final.flac'' @ ''.txt'')
           \<noteq> None"
    by simp
  have two: "replicate 2 x = [x, x]" for x :: "event list"
    by (simp add: numeral_2_eq_2)
  from a b
    completion_wait_retries[of 2 "simulated_provider None 2 []" world0 "''bucket''"
      "''test_final.flac''"]
  have d: "download_loop (simulated_provider None 2 []) ''bucket'' ''test_final.flac'' world0
       = Some \<lparr> trace =
                  [DownloadFile ''bucket'' ''test_final.txt'' ''test_final.txt'',
                   Log INFO (PStr ''Waiting for transcription...'') [],
                   Sleep 1,
                   DownloadFile ''bucket'' ''test_final.txt'' ''test_final.txt'',
                   Log INFO (PStr ''Waiting for transcription...'') [],
                   Sleep 1,
                   DownloadFile ''bucket'' ''test_final.txt'' ''test_final.txt''],
                downloads = 3, polls = 0 \<rparr>"
    by (simp add: two stem_spec_def world0_def)
  from c
    completion_wait_retries[of 0
      "(simulated_provider None 0 [])
         \<lparr>download_file := \<lambda>_ _ _ _. Some (ExtException ''Not Found'')\<rparr>"
      world0 "''bucket''" "''test_final.flac''"]
  have e: "download_loop
        ((simulated_provider None 0 [])
           \<lparr>download_file := \<lambda>_ _ _ _. Some (ExtException ''Not Found'')\<rparr>)
        ''bucket'' ''test_final.flac'' world0 = None"
    by blast
  from a0 a1 b c d e show ?thesis by blast
qed

section \<open>Waiting for a vocabulary\<close>

lemma poll_vocabulary_state:
  assumes "client_get_vocabulary client (polls w) vocabulary_name = Inr response"
    and "py_getitem response (KStr ''VocabularyState'') = Inr state"
  shows "poll_vocabulary client vocabulary_name w =
     (let w2 = w\<lparr>trace := trace w @ [GetVocabulary vocabulary_name, Log INFO state []],
                  polls := Suc (polls w)\<rparr>
      in if state = PStr ''READY'' then (Break, w2)
         else if state = PStr ''FAILED'' then
           (Raise RuntimeError,
            w2\<lparr>trace := trace w2 @
              [Log CRITICAL response [],
               Log CRITICAL (PStr (''Vocabulary '' @ vocabulary_name @ '' FAILED'')) []]\<rparr>)
         else if state = PStr ''PENDING'' then (Continue, w2\<lparr>trace := trace w2 @ [Sleep 10]\<rparr>)
         else (Continue, w2))"
  using assms by (simp add: poll_vocabulary_def Let_def emit_def)

lemma poll_vocabulary_unrecognized:
  assumes "answers_unrecognized client vocabulary_name (polls w)"
  shows "\<exists>state. poll_vocabulary client vocabulary_name w =
           (Continue, w\<lparr>trace := trace w @ [GetVocabulary vocabulary_name, Log INFO state []],
                        polls := Suc (polls w)\<rparr>)"
proof -
  from assms obtain response state where
    r: "client_get_vocabulary client (polls w) vocabulary_name = Inr response"
    and s: "py_getitem response (KStr ''VocabularyState'') = Inr state"
    and u: "unrecognized_state state"
    by (auto simp: answers_unrecognized_def split: sum.splits)
  from u have "poll_vocabulary client vocabulary_name w =
           (Continue, w\<lparr>trace := trace w @ [GetVocabulary vocabulary_name, Log INFO state []],
                        polls := Suc (polls w)\<rparr>)"
    by (simp add: poll_vocabulary_state[OF r s] unrecognized_state_def)
  then show ?thesis by blast
qed

lemma wait_pending:
  assumes "client_get_vocabulary client (polls w) vocabulary_name = Inr response"
    and "py_getitem response (KStr ''VocabularyState'') = Inr (PStr ''PENDING'')"
  shows "wait_for_vocabulary client vocabulary_name w =
         wait_for_vocabulary client vocabulary_name
           (w\<lparr>trace := trace w @ [GetVocabulary vocabulary_name, Log INFO (PStr ''PENDING'') [],
                                   Sleep 10],
               polls := Suc (polls w)\<rparr>)"
proof -
  have "poll_vocabulary client vocabulary_name w =
          (Continue,
           w\<lparr>trace := trace w @ [GetVocabulary vocabulary_name, Log INFO (PStr ''PENDING'') [],
                                   Sleep 10],
               polls := Suc (polls w)\<rparr>)"
    by (simp add: poll_vocabulary_state[OF assms])
  then show ?thesis
    by (subst wait_for_vocabulary.simps) simp
qed

lemma wait_ready:
  assumes "client_get_vocabulary client (polls w) vocabulary_name = Inr response"
    and "py_getitem response (KStr ''VocabularyState'') = Inr (PStr ''READY'')"
  shows "wait_for_vocabulary client vocabulary_name w =
         Some (Inr (),
           w\<lparr>trace := trace w @ [GetVocabulary vocabulary_name, Log INFO (PStr ''READY'') []],
              polls := Suc (polls w)\<rparr>)"
  by (subst wait_for_vocabulary.simps) (simp add: poll_vocabulary_state[OF assms])

lemma wait_failed:
  assumes "client_get_vocabulary client (polls w) vocabulary_name = Inr response"
    and "py_getitem response (KStr ''VocabularyState'') = Inr (PStr ''FAILED'')"
  shows "wait_for_vocabulary client vocabulary_name w =
         Some (Inl RuntimeError,
           w\<lparr>trace := trace w @
                [GetVocabulary vocabulary_name, Log INFO (PStr ''FAILED'') [],
                 Log CRITICAL response [],
                 Log CRITICAL (PStr (''Vocabulary '' @ vocabulary_name @ '' FAILED'')) []],
              polls := Suc (polls w)\<rparr>)"
  by (subst wait_for_vocabulary.simps) (simp add: poll_vocabulary_state[OF assms])

lemma wait_returns_after_recognized:
  assumes "wait_for_vocabulary client vocabulary_name w = Some res"
  shows "\<exists>k. \<not> answers_unrecognized client vocabulary_name (polls w + k)"
  using assms
proof (rule wait_for_vocabulary.raw_induct[rotated])
  fix loop c n w res
  assume IH: "\<And>c n w res. loop c n w = Some res \<Longrightarrow>
          \<exists>k. \<not> answers_unrecognized c n (polls w + k)"
    and body: "(case poll_vocabulary c n w of
                  (Break, w') \<Rightarrow> Some (Inr (), w')
                | (Continue, w') \<Rightarrow> loop c n w'
                | (Raise e, w') \<Rightarrow> Some (Inl e, w')) = Some res"
  show "\<exists>k. \<not> answers_unrecognized c n (polls w + k)"
  proof (cases "answers_unrecognized c n (polls w)")
    case False
    then have "\<not> answers_unrecognized c n (polls w + 0)" by simp
    then show ?thesis by blast
  next
    case True
    from poll_vocabulary_unrecognized[OF True] obtain state where
      p: "poll_vocabulary c n w =
           (Continue, w\<lparr>trace := trace w @ [GetVocabulary n, Log INFO state []],
                        polls := Suc (polls w)\<rparr>)" by blast
    from body have "loop c n (w\<lparr>trace := trace w @ [GetVocabulary n, Log INFO state []],
                        polls := Suc (polls w)\<rparr>) = Some res"
      by (simp add: p)
    from IH[OF this] obtain k where "\<not> answers_unrecognized c n (Suc (polls w) + k)"
      by auto
    then have "\<not> answers_unrecognized c n (polls w + Suc k)" by simp
    then show ?thesis by blast
  qed
qed

lemma wait_never_returns:
  assumes "\<forall>k. answers_unrecognized client vocabulary_name (polls w + k)"
  shows "wait_for_vocabulary client vocabulary_name w = None"
proof (cases "wait_for_vocabulary client vocabulary_name w")
  case None
  then show ?thesis .
next
  case (Some res)
  from wait_returns_after_recognized[OF this] assms show ?thesis by blast
qed

lemma poll_passes_unrecognized:
  assumes "\<forall>k<m. answers_unrecognized client vocabulary_name (polls w + k)"
  shows "\<exists>new. poll_passes m client vocabulary_name w
             = (Continue, w\<lparr>trace := trace w @ new, polls := polls w + m\<rparr>)
           \<and> length (filter (\<lambda>e. e = GetVocabulary vocabulary_name) new) = m
           \<and> length new = 2 * m
           \<and> (\<forall>d. Sleep d \<notin> set new)"
  using assms
proof (induction m arbitrary: w)
  case 0
  show ?case by simp
next
  case (Suc m)
  from Suc.prems have "answers_unrecognized client vocabulary_name (polls w)"
    by (metis add.right_neutral zero_less_Suc)
  from poll_vocabulary_unrecognized[OF this] obtain state where
    p: "poll_vocabulary client vocabulary_name w =
         (Continue, w\<lparr>trace := trace w @ [GetVocabulary vocabulary_name, Log INFO state []],
                      polls := Suc (polls w)\<rparr>)" by blast
  let ?w1 = "w\<lparr>trace := trace w @ [GetVocabulary vocabulary_name, Log INFO state []],
               polls := Suc (polls w)\<rparr>"
  have "\<forall>k<m. answers_unrecognized client vocabulary_name (polls ?w1 + k)"
    using Suc.prems by (auto dest: spec[where x = "Suc k" for k])
  from Suc.IH[OF this] obtain new where
    n: "poll_passes m client vocabulary_name ?w1
          = (Continue, ?w1\<lparr>trace := trace ?w1 @ new, polls := polls ?w1 + m\<rparr>)"
      "length (filter (\<lambda>e. e = GetVocabulary vocabulary_name) new) = m"
      "length new = 2 * m"
      "\<forall>d. Sleep d \<notin> set new" by blast
  let ?new = "[GetVocabulary vocabulary_name, Log INFO state []] @ new"
  have "poll_passes (Suc m) client vocabulary_name w
          = (Continue, w\<lparr>trace := trace w @ ?new, polls := polls w + Suc m\<rparr>)"
    using n(1) by (simp add: p)
  moreover have "length (filter (\<lambda>e. e = GetVocabulary vocabulary_name) ?new) = Suc m"
    using n(2) by simp
  moreover have "length ?new = 2 * Suc m" using n(3) by simp
  moreover have "\<forall>d. Sleep d \<notin> set ?new" using n(4) by simp
  ultimately show ?case by blast
qed


text \<open>
  C3. With the next three \<^verbatim>\<open>get_vocabulary\<close> responses carrying the states PENDING,
  PENDING and READY, \<^verbatim>\<open>wait_for_vocabulary\<close> returns normally after three calls and
  exactly two sleeps of ten seconds. With the next response carrying FAILED, it raises
  RuntimeError after that one call, having logged the response, with no sleep and no
  further call.
\<close>

theorem wait_for_vocabulary_ready_and_failed:
  "(client_get_vocabulary client (polls w) vocabulary_name = Inr r0
      \<and> py_getitem r0 (KStr ''VocabularyState'') = Inr (PStr ''PENDING'')
      \<and> client_get_vocabulary client (polls w + 1) vocabulary_name = Inr r1
      \<and> py_getitem r1 (KStr ''VocabularyState'') = Inr (PStr ''PENDING'')
      \<and> client_get_vocabulary client (polls w + 2) vocabulary_name = Inr r2
      \<and> py_getitem r2 (KStr ''VocabularyState'') = Inr (PStr ''READY'')
    \<longrightarrow> wait_for_vocabulary client vocabulary_name w
          = Some (Inr (),
              w\<lparr>trace := trace w @
                   [GetVocabulary vocabulary_name, Log INFO (PStr ''PENDING'') [], Sleep 10,
                    GetVocabulary vocabulary_name, Log INFO (PStr ''PENDING'') [], Sleep 10,
                    GetVocabulary vocabulary_name, Log INFO (PStr ''READY'') []],
                 polls := polls w + 3\<rparr>))
   \<and> (client_get_vocabulary client (polls w) vocabulary_name = Inr r
      \<and> py_getitem r (KStr ''VocabularyState'') = Inr (PStr ''FAILED'')
    \<longrightarrow> wait_for_vocabulary client vocabulary_name w
          = Some (Inl RuntimeError,
              w\<lparr>trace := trace w @
                   [GetVocabulary vocabulary_name, Log INFO (PStr ''FAILED'') [],
                    Log CRITICAL r [],
                    Log CRITICAL (PStr (''Vocabulary '' @ vocabulary_name @ '' FAILED'')) []],
                 polls := polls w + 1\<rparr>))"
proof (intro conjI impI)
  assume a: "client_get_vocabulary client (polls w) vocabulary_name = Inr r0
      \<and> py_getitem r0 (KStr ''VocabularyState'') = Inr (PStr ''PENDING'')
      \<and> client_get_vocabulary client (polls w + 1) vocabulary_name = Inr r1
      \<and> py_getitem r1 (KStr ''VocabularyState'') = Inr (PStr ''PENDING'')
      \<and> client_get_vocabulary client (polls w + 2) vocabulary_name = Inr r2
      \<and> py_getitem r2 (KStr ''VocabularyState'') = Inr (PStr ''READY'')"
  let ?w1 = "w\<lparr>trace := trace w @
                 [GetVocabulary vocabulary_name, Log INFO (PStr ''PENDING'') [], Sleep 10],
               polls := Suc (polls w)\<rparr>"
  let ?w2 = "?w1\<lparr>trace := trace ?w1 @
                 [GetVocabulary vocabulary_name, Log INFO (PStr ''PENDING'') [], Sleep 10],
               polls := Suc (polls ?w1)\<rparr>"
  have s1: "wait_for_vocabulary client vocabulary_name w
              = wait_for_vocabulary client vocabulary_name ?w1"
    using a by (intro wait_pending) auto
  have s2: "wait_for_vocabulary client vocabulary_name ?w1
              = wait_for_vocabulary client vocabulary_name ?w2"
    using a by (intro wait_pending[where response = r1]) auto
  have s3: "wait_for_vocabulary client vocabulary_name ?w2
              = Some (Inr (),
                  ?w2\<lparr>trace := trace ?w2 @
                        [GetVocabulary vocabulary_name, Log INFO (PStr ''READY'') []],
                      polls := Suc (polls ?w2)\<rparr>)"
    using a by (intro wait_ready[where response = r2]) auto
  show "wait_for_vocabulary client vocabulary_name w
          = Some (Inr (),
              w\<lparr>trace := trace w @
                   [GetVocabulary vocabulary_name, Log INFO (PStr ''PENDING'') [], Sleep 10,
                    GetVocabulary vocabulary_name, Log INFO (PStr ''PENDING'') [], Sleep 10,
                    GetVocabulary vocabulary_name, Log INFO (PStr ''READY'') []],
                 polls := polls w + 3\<rparr>)"
    unfolding s1 s2 s3 by simp
next
  assume "client_get_vocabulary client (polls w) vocabulary_name = Inr r
      \<and> py_getitem r (KStr ''VocabularyState'') = Inr (PStr ''FAILED'')"
  then show "wait_for_vocabulary client vocabulary_name w
          = Some (Inl RuntimeError,
              w\<lparr>trace := trace w @
                   [GetVocabulary vocabulary_name, Log INFO (PStr ''FAILED'') [],
                    Log CRITICAL r [],
                    Log CRITICAL (PStr (''Vocabulary '' @ vocabulary_name @ '' FAILED'')) []],
                 polls := polls w + 1\<rparr>)"
    using wait_failed[of client w vocabulary_name r] by simp
qed

theorem wait_for_vocabulary_ready_and_failed_witness:
  "wait_for_vocabulary
     (scripted_client [PStr ''PENDING'', PStr ''PENDING'', PStr ''READY''] (PStr ''READY'')
        (Inr PNone))
     ''vocabulary_test_18'' world0
   = Some (Inr (),
       \<lparr> trace =
           [GetVocabulary ''vocabulary_test_18'', Log INFO (PStr ''PENDING'') [], Sleep 10,
            GetVocabulary ''vocabulary_test_18'', Log INFO (PStr ''PENDING'') [], Sleep 10,
            GetVocabulary ''vocabulary_test_18'', Log INFO (PStr ''READY'') []],
         downloads = 0, polls = 3 \<rparr>)
   \<and> wait_for_vocabulary
       (scripted_client [PStr ''FAILED'', PStr ''READY''] (PStr ''READY'') (Inr PNone))
       ''vocabulary_test_18'' world0
     = Some (Inl RuntimeError,
         \<lparr> trace =
             [GetVocabulary ''vocabulary_test_18'', Log INFO (PStr ''FAILED'') [],
              Log CRITICAL
                (PDict [(''VocabularyName'', PStr ''vocabulary_test_18''),
                        (''VocabularyState'', PStr ''FAILED'')]) [],
              Log CRITICAL (PStr ''Vocabulary vocabulary_test_18 FAILED'') []],
           downloads = 0, polls = 1 \<rparr>)"
proof -
  let ?c = "scripted_client [PStr ''PENDING'', PStr ''PENDING'', PStr ''READY''] (PStr ''READY'')
              (Inr PNone)"
  let ?d = "scripted_client [PStr ''FAILED'', PStr ''READY''] (PStr ''READY'') (Inr PNone)"
  let ?r = "\<lambda>state. PDict [(''VocabularyName'', PStr ''vocabulary_test_18''),
                           (''VocabularyState'', PStr state)]"
  have h1: "client_get_vocabulary ?c (polls world0) ''vocabulary_test_18'' = Inr (?r ''PENDING'')
      \<and> py_getitem (?r ''PENDING'') (KStr ''VocabularyState'') = Inr (PStr ''PENDING'')
      \<and> client_get_vocabulary ?c (polls world0 + 1) ''vocabulary_test_18'' = Inr (?r ''PENDING'')
      \<and> py_getitem (?r ''PENDING'') (KStr ''VocabularyState'') = Inr (PStr ''PENDING'')
      \<and> client_get_vocabulary ?c (polls world0 + 2) ''vocabulary_test_18'' = Inr (?r ''READY'')
      \<and> py_getitem (?r ''READY'') (KStr ''VocabularyState'') = Inr (PStr ''READY'')"
    by (simp add: scripted_client_def world0_def)
  have h2: "client_get_vocabulary ?d (polls world0) ''vocabulary_test_18'' = Inr (?r ''FAILED'')
      \<and> py_getitem (?r ''FAILED'') (KStr ''VocabularyState'') = Inr (PStr ''FAILED'')"
    by (simp add: scripted_client_def world0_def)
  from h1
    wait_for_vocabulary_ready_and_failed
      [of ?c world0 "''vocabulary_test_18''" "?r ''PENDING''" "?r ''PENDING''" "?r ''READY''"]
  have c1: "wait_for_vocabulary ?c ''vocabulary_test_18'' world0
   = Some (Inr (),
       \<lparr> trace =
           [GetVocabulary ''vocabulary_test_18'', Log INFO (PStr ''PENDING'') [], Sleep 10,
            GetVocabulary ''vocabulary_test_18'', Log INFO (PStr ''PENDING'') [], Sleep 10,
            GetVocabulary ''vocabulary_test_18'', Log INFO (PStr ''READY'') []],
         downloads = 0, polls = 3 \<rparr>)"
    by (simp add: world0_def)
  from h2
    wait_for_vocabulary_ready_and_failed
      [of ?d world0 "''vocabulary_test_18''" _ _ _ "?r ''FAILED''"]
  have c2: "wait_for_vocabulary ?d ''vocabulary_test_18'' world0
     = Some (Inl RuntimeError,
         \<lparr> trace =
             [GetVocabulary ''vocabulary_test_18'', Log INFO (PStr ''FAILED'') [],
              Log CRITICAL
                (PDict [(''VocabularyName'', PStr ''vocabulary_test_18''),
                        (''VocabularyState'', PStr ''FAILED'')]) [],
              Log CRITICAL (PStr ''Vocabulary vocabulary_test_18 FAILED'') []],
           downloads = 0, polls = 1 \<rparr>)"
    by (simp add: world0_def)
  from c1 c2 show ?thesis by blast
qed

text \<open>
  C8. If every \<^verbatim>\<open>get_vocabulary\<close> response from now on carries a state other than
  READY, FAILED and PENDING, \<^verbatim>\<open>wait_for_vocabulary\<close> does not return, normally or with an
  exception: after any number \<open>m\<close> of passes the loop is still running, and what it has
  added to the trace are \<open>m\<close> calls of \<^verbatim>\<open>get_vocabulary\<close>, each with its one log line,
  and no sleep.
\<close>

theorem wait_for_vocabulary_busy_poll:
  "(\<forall>k. answers_unrecognized client vocabulary_name (polls w + k))
   \<longrightarrow> wait_for_vocabulary client vocabulary_name w = None
       \<and> (\<forall>m. \<exists>new. poll_passes m client vocabulary_name w
                       = (Continue, w\<lparr>trace := trace w @ new, polls := polls w + m\<rparr>)
                  \<and> length (filter (\<lambda>e. e = GetVocabulary vocabulary_name) new) = m
                  \<and> length new = 2 * m
                  \<and> (\<forall>d. Sleep d \<notin> set new))"
proof (intro impI conjI allI)
  assume "\<forall>k. answers_unrecognized client vocabulary_name (polls w + k)"
  then show "wait_for_vocabulary client vocabulary_name w = None"
    by (rule wait_never_returns)
next
  fix m
  assume "\<forall>k. answers_unrecognized client vocabulary_name (polls w + k)"
  then have "\<forall>k<m. answers_unrecognized client vocabulary_name (polls w + k)"
    by simp
  then show "\<exists>new. poll_passes m client vocabulary_name w
                       = (Continue, w\<lparr>trace := trace w @ new, polls := polls w + m\<rparr>)
                  \<and> length (filter (\<lambda>e. e = GetVocabulary vocabulary_name) new) = m
                  \<and> length new = 2 * m
                  \<and> (\<forall>d. Sleep d \<notin> set new)"
    by (rule poll_passes_unrecognized)
qed

theorem wait_for_vocabulary_busy_poll_witness:
  "(\<forall>k. answers_unrecognized (scripted_client [] (PStr ''DELETING'') (Inr PNone))
          ''vocabulary_test_18'' (polls world0 + k))
   \<and> wait_for_vocabulary (scripted_client [] (PStr ''DELETING'') (Inr PNone))
        ''vocabulary_test_18'' world0 = None
   \<and> poll_passes 2 (scripted_client [] (PStr ''DELETING'') (Inr PNone))
        ''vocabulary_test_18'' world0
      = (Continue,
         \<lparr> trace =
             [GetVocabulary ''vocabulary_test_18'', Log INFO (PStr ''DELETING'') [],
              GetVocabulary ''vocabulary_test_18'', Log INFO (PStr ''DELETING'') []],
           downloads = 0, polls = 2 \<rparr>)"
proof -
  let ?c = "scripted_client [] (PStr ''DELETING'') (Inr PNone)"
  have h: "\<forall>k. answers_unrecognized ?c ''vocabulary_test_18'' (polls world0 + k)"
    by (simp add: answers_unrecognized_def scripted_client_def unrecognized_state_def)
  from h wait_for_vocabulary_busy_poll[of ?c "''vocabulary_test_18''" world0]
  have n: "wait_for_vocabulary ?c ''vocabulary_test_18'' world0 = None"
    by blast
  have p: "poll_passes 2 ?c ''vocabulary_test_18'' world0
      = (Continue,
         \<lparr> trace =
             [GetVocabulary ''vocabulary_test_18'', Log INFO (PStr ''DELETING'') [],
              GetVocabulary ''vocabulary_test_18'', Log INFO (PStr ''DELETING'') []],
           downloads = 0, polls = 2 \<rparr>)"
    by code_simp
  from h n p show ?thesis by blast
qed

section \<open>Result extraction and the workflow as a whole\<close>

lemma foldl_append_concat: "foldl (\<lambda>out line. out @ line) acc lines = acc @ concat lines"
  by (induction lines arbitrary: acc) simp_all

text \<open>
  C7. When the downloaded file parses to an object whose \<^verbatim>\<open>results\<close> is an object whose
  \<^verbatim>\<open>transcripts\<close> is a list whose first element is an object with a \<^verbatim>\<open>transcript\<close>,
  the extraction step returns that value. In particular, for the file text of the
  round-trip property, which \<^verbatim>\<open>json.loads\<close> parses to the corresponding nested
  dictionaries, it returns the string \<^verbatim>\<open>hello world\<close>.
\<close>

theorem transcript_extraction:
  \<open>(open_lines env (stem_spec file @ ''.txt'') = Inr lines
      \<and> json_loads env (concat lines) = Inr (PDict doc)
      \<and> map_of doc ''results'' = Some (PDict results)
      \<and> map_of results ''transcripts'' = Some (PList (PDict first # rest))
      \<and> map_of first ''transcript'' = Some v
    \<longrightarrow> read_transcript env file w = (Inr v, emit (OpenRead (stem_spec file @ ''.txt'')) w))
   \<and> (open_lines env (stem_spec file @ ''.txt'') = Inr lines
      \<and> concat lines = ''{"results":{"transcripts":[{"transcript":"hello world"}]}}''
      \<and> json_loads env ''{"results":{"transcripts":[{"transcript":"hello world"}]}}''
          = Inr (PDict [(''results'',
                  PDict [(''transcripts'', PList [PDict [(''transcript'', PStr ''hello world'')]])])])
    \<longrightarrow> read_transcript env file w
          = (Inr (PStr ''hello world''), emit (OpenRead (stem_spec file @ ''.txt'')) w))\<close>
  by (simp add: read_transcript_def Let_def hd_split_on stem_spec_def foldl_append_concat
      py_index_def)

theorem transcript_extraction_witness:
  \<open>read_transcript
     (simulated_provider None 0 [''{"results":{"transcripts":[{"transcript":"hello world"}]}}''])
     ''test_final.flac'' world0
   = (Inr (PStr ''hello world''),
      \<lparr> trace = [OpenRead ''test_final.txt''], downloads = 0, polls = 0 \<rparr>)\<close>
proof -
  let ?env = \<open>simulated_provider None 0
                [''{"results":{"transcripts":[{"transcript":"hello world"}]}}'']\<close>
  have h: \<open>open_lines ?env (stem_spec ''test_final.flac'' @ ''.txt'')
          = Inr [''{"results":{"transcripts":[{"transcript":"hello world"}]}}'']
      \<and> json_loads ?env (concat [''{"results":{"transcripts":[{"transcript":"hello world"}]}}''])
          = Inr (PDict [(''results'',
                  PDict [(''transcripts'', PList [PDict [(''transcript'', PStr ''hello world'')]])])])
      \<and> map_of [(''results'',
                  PDict [(''transcripts'', PList [PDict [(''transcript'', PStr ''hello world'')]])])]
            ''results''
          = Some (PDict [(''transcripts'', PList [PDict [(''transcript'', PStr ''hello world'')]])])
      \<and> map_of [(''transcripts'', PList [PDict [(''transcript'', PStr ''hello world'')]])]
            ''transcripts''
          = Some (PList (PDict [(''transcript'', PStr ''hello world'')] # []))
      \<and> map_of [(''transcript'', PStr ''hello world'')] ''transcript'' = Some (PStr ''hello world'')\<close>
    by (simp add: simulated_provider_def)
  from h
    transcript_extraction
      [of ?env "''test_final.flac''"
          \<open>[''{"results":{"transcripts":[{"transcript":"hello world"}]}}'']\<close>
          "[(''results'',
              PDict [(''transcripts'', PList [PDict [(''transcript'', PStr ''hello world'')]])])]"
          "[(''transcripts'', PList [PDict [(''transcript'', PStr ''hello world'')]])]"
          "[(''transcript'', PStr ''hello world'')]" "[]" "PStr ''hello world''" world0]
  show ?thesis
    by (simp add: stem_spec_def world0_def emit_def)
qed

text \<open>
  A complete run against a simulated provider: the bucket exists already, the output
  object appears after two failed downloads, and the file holds the round-trip document.
\<close>

lemma upload_and_retrieve_example:
  \<open>upload_and_retrieve
     (simulated_provider
        (Some (ExtException ''An error occurred (BucketAlreadyOwnedByYou) when calling the CreateBucket operation: Your previous request to create the named bucket succeeded and you already own it.''))
        2 [''{"results":{"transcripts":[{"transcript":"hello world"}]}}''])
     ''bucket'' ''test_final.flac'' None world0
   = Some (Inr (PStr ''hello world''),
       \<lparr> trace =
           [CreateBucket ''bucket'' ''eu-west-2'',
            Log WARNING (PStr ''BucketAlreadyOwnedByYou'') [],
            UploadFile ''test_final.flac'' ''bucket'' ''test_final.flac'',
            StartTranscriptionJob
              \<lparr> TranscriptionJobName = ''transcribing_test_final_1700000000'',
                LanguageCode = ''en-US'',
                MediaFormat = ''flac'',
                Settings = [],
                MediaFileUri = ''s3://bucket/test_final.flac'',
                OutputBucketName = ''bucket'',
                OutputKey = ''test_final.txt'' \<rparr>,
            DownloadFile ''bucket'' ''test_final.txt'' ''test_final.txt'',
            Log INFO (PStr ''Waiting for transcription...'') [],
            Sleep 1,
            DownloadFile ''bucket'' ''test_final.txt'' ''test_final.txt'',
            Log INFO (PStr ''Waiting for transcription...'') [],
            Sleep 1,
            DownloadFile ''bucket'' ''test_final.txt'' ''test_final.txt'',
            OpenRead ''test_final.txt''],
         downloads = 3, polls = 0 \<rparr>)\<close>
  by code_simp

text \<open>
  C4. A run in which the bucket creation fails with a connection error, whose message
  holds no word in parentheses: \<^verbatim>\<open>re.findall(...)[0]\<close> in the handler raises IndexError,
  which reaches the caller before anything is logged or uploaded. (With the
  bucket-already-exists error of the run above the handler logs the token and the
  workflow goes on.)
\<close>

theorem create_bucket_error_without_token:
  \<open>upload_and_retrieve
     (simulated_provider
        (Some (ExtException
           ''Could not connect to the endpoint URL: "https://s3.eu-west-2.amazonaws.com/bucket"''))
        0 [''{"results":{"transcripts":[{"transcript":"hello world"}]}}''])
     ''bucket'' ''test_final.flac'' None world0
   = Some (Inl IndexError,
       \<lparr> trace = [CreateBucket ''bucket'' ''eu-west-2''], downloads = 0, polls = 0 \<rparr>)\<close>
  by code_simp

section \<open>Creating a vocabulary\<close>

lemma py_getitem_dict_key:
  "py_getitem (PDict kvs) (KStr k) =
     (if k \<in> fst ` set kvs then Inr (the (map_of kvs k)) else Inl (KeyError (KStr k)))"
  by (auto simp: map_of_eq_None_iff[symmetric] split: option.splits)

text \<open>
  C10. \<^verbatim>\<open>create_vocabulary\<close> sends the phrases when they are given, whether or not a
  table URI is given too, the table URI when only that is given, and neither when both
  are absent. It returns the response, after logging its \<^verbatim>\<open>VocabularyName\<close>, exactly
  when the creation call answers with a response that can be subscripted with
  \<^verbatim>\<open>VocabularyName\<close>, which for a dictionary means that it has that key. When the call
  raises, or the response lacks the key (a KeyError), it logs the failure message and
  raises that same exception to the caller.
\<close>

theorem create_vocabulary_outcomes:
  "(\<forall>ps. phrases = Some ps \<longrightarrow>
       vocab_args vocabulary_name language_code phrases table_uri
         = [(''VocabularyName'', PStr vocabulary_name), (''LanguageCode'', PStr language_code),
            (''Phrases'', PList (map PStr ps))])
   \<and> (\<forall>uri. phrases = None \<and> table_uri = Some uri \<longrightarrow>
       vocab_args vocabulary_name language_code phrases table_uri
         = [(''VocabularyName'', PStr vocabulary_name), (''LanguageCode'', PStr language_code),
            (''VocabularyFileUri'', PStr uri)])
   \<and> (phrases = None \<and> table_uri = None \<longrightarrow>
       vocab_args vocabulary_name language_code phrases table_uri
         = [(''VocabularyName'', PStr vocabulary_name), (''LanguageCode'', PStr language_code)])
   \<and> (\<forall>response name.
         client_create_vocabulary client
             (vocab_args vocabulary_name language_code phrases table_uri) = Inr response
         \<and> py_getitem response (KStr ''VocabularyName'') = Inr name \<longrightarrow>
         create_vocabulary vocabulary_name language_code client phrases table_uri w
           = (Inr response,
              w\<lparr>trace := trace w @
                   [CreateVocabulary (vocab_args vocabulary_name language_code phrases table_uri),
                    Log INFO (PStr ''Created custom vocabulary %s.'') [name]]\<rparr>))
   \<and> (\<forall>response e.
         client_create_vocabulary client
             (vocab_args vocabulary_name language_code phrases table_uri) = Inr response
         \<and> py_getitem response (KStr ''VocabularyName'') = Inl e \<longrightarrow>
         create_vocabulary vocabulary_name language_code client phrases table_uri w
           = (Inl e,
              w\<lparr>trace := trace w @
                   [CreateVocabulary (vocab_args vocabulary_name language_code phrases table_uri),
                    Log INFO (PStr ''Couldn't create custom vocabulary %s.'')
                      [PStr vocabulary_name]]\<rparr>))
   \<and> (\<forall>e.
         client_create_vocabulary client
             (vocab_args vocabulary_name language_code phrases table_uri) = Inl e \<longrightarrow>
         create_vocabulary vocabulary_name language_code client phrases table_uri w
           = (Inl (External e),
              w\<lparr>trace := trace w @
                   [CreateVocabulary (vocab_args vocabulary_name language_code phrases table_uri),
                    Log INFO (PStr ''Couldn't create custom vocabulary %s.'')
                      [PStr vocabulary_name]]\<rparr>))
   \<and> ((\<exists>r. fst (create_vocabulary vocabulary_name language_code client phrases table_uri w) = Inr r)
        \<longleftrightarrow> (\<exists>response name.
               client_create_vocabulary client
                   (vocab_args vocabulary_name language_code phrases table_uri) = Inr response
               \<and> py_getitem response (KStr ''VocabularyName'') = Inr name))
   \<and> (\<forall>kvs. (\<exists>name. py_getitem (PDict kvs) (KStr ''VocabularyName'') = Inr name)
               \<longleftrightarrow> ''VocabularyName'' \<in> fst ` set kvs)
   \<and> (\<forall>kvs. ''VocabularyName'' \<notin> fst ` set kvs \<longrightarrow>
         py_getitem (PDict kvs) (KStr ''VocabularyName'') = Inl (KeyError (KStr ''VocabularyName'')))"
proof -
  have args: "(\<forall>ps. phrases = Some ps \<longrightarrow>
       vocab_args vocabulary_name language_code phrases table_uri
         = [(''VocabularyName'', PStr vocabulary_name), (''LanguageCode'', PStr language_code),
            (''Phrases'', PList (map PStr ps))])
   \<and> (\<forall>uri. phrases = None \<and> table_uri = Some uri \<longrightarrow>
       vocab_args vocabulary_name language_code phrases table_uri
         = [(''VocabularyName'', PStr vocabulary_name), (''LanguageCode'', PStr language_code),
            (''VocabularyFileUri'', PStr uri)])
   \<and> (phrases = None \<and> table_uri = None \<longrightarrow>
       vocab_args vocabulary_name language_code phrases table_uri
         = [(''VocabularyName'', PStr vocabulary_name), (''LanguageCode'', PStr language_code)])"
    by (simp add: vocab_args_def)
  have ok: "\<forall>response name.
         client_create_vocabulary client
             (vocab_args vocabulary_name language_code phrases table_uri) = Inr response
         \<and> py_getitem response (KStr ''VocabularyName'') = Inr name \<longrightarrow>
         create_vocabulary vocabulary_name language_code client phrases table_uri w
           = (Inr response,
              w\<lparr>trace := trace w @
                   [CreateVocabulary (vocab_args vocabulary_name language_code phrases table_uri),
                    Log INFO (PStr ''Created custom vocabulary %s.'') [name]]\<rparr>)"
    by (simp add: create_vocabulary_def Let_def emit_def)
  have nokey: "\<forall>response e.
         client_create_vocabulary client
             (vocab_args vocabulary_name language_code phrases table_uri) = Inr response
         \<and> py_getitem response (KStr ''VocabularyName'') = Inl e \<longrightarrow>
         create_vocabulary vocabulary_name language_code client phrases table_uri w
           = (Inl e,
              w\<lparr>trace := trace w @
                   [CreateVocabulary (vocab_args vocabulary_name language_code phrases table_uri),
                    Log INFO (PStr ''Couldn't create custom vocabulary %s.'')
                      [PStr vocabulary_name]]\<rparr>)"
    by (simp add: create_vocabulary_def Let_def emit_def)
  have err: "\<forall>e.
         client_create_vocabulary client
             (vocab_args vocabulary_name language_code phrases table_uri) = Inl e \<longrightarrow>
         create_vocabulary vocabulary_name language_code client phrases table_uri w
           = (Inl (External e),
              w\<lparr>trace := trace w @
                   [CreateVocabulary (vocab_args vocabulary_name language_code phrases table_uri),
                    Log INFO (PStr ''Couldn't create custom vocabulary %s.'')
                      [PStr vocabulary_name]]\<rparr>)"
    by (simp add: create_vocabulary_def Let_def emit_def)
  have iff: "(\<exists>r. fst (create_vocabulary vocabulary_name language_code client phrases table_uri w)
                 = Inr r)
        \<longleftrightarrow> (\<exists>response name.
               client_create_vocabulary client
                   (vocab_args vocabulary_name language_code phrases table_uri) = Inr response
               \<and> py_getitem response (KStr ''VocabularyName'') = Inr name)"
    by (auto simp: create_vocabulary_def Let_def split: sum.splits)
  have d1: "\<forall>kvs. (\<exists>name. py_getitem (PDict kvs) (KStr ''VocabularyName'') = Inr name)
               \<longleftrightarrow> ''VocabularyName'' \<in> fst ` set kvs"
    by (simp del: py_getitem.simps add: py_getitem_dict_key)
  have d2: "\<forall>kvs. ''VocabularyName'' \<notin> fst ` set kvs \<longrightarrow>
         py_getitem (PDict kvs) (KStr ''VocabularyName'') = Inl (KeyError (KStr ''VocabularyName''))"
    by (simp del: py_getitem.simps add: py_getitem_dict_key)
  from args ok nokey err iff d1 d2 show ?thesis by blast
qed

theorem create_vocabulary_outcomes_witness:
  "create_vocabulary ''vocabulary_test_18'' ''en-US''
     (scripted_client [] (PStr ''PENDING'')
        (Inr (PDict [(''VocabularyName'', PStr ''vocabulary_test_18''),
                     (''VocabularyState'', PStr ''PENDING'')])))
     (Some [''Mackie'', ''Cathy'']) (Some ''s3://bucket/vocabulary_test_18.txt'') world0
   = (Inr (PDict [(''VocabularyName'', PStr ''vocabulary_test_18''),
                  (''VocabularyState'', PStr ''PENDING'')]),
      \<lparr> trace =
          [CreateVocabulary
             [(''VocabularyName'', PStr ''vocabulary_test_18''), (''LanguageCode'', PStr ''en-US''),
              (''Phrases'', PList [PStr ''Mackie'', PStr ''Cathy''])],
           Log INFO (PStr ''Created custom vocabulary %s.'') [PStr ''vocabulary_test_18'']],
        downloads = 0, polls = 0 \<rparr>)
   \<and> create_vocabulary ''vocabulary_test_18'' ''en-US''
       (scripted_client [] (PStr ''PENDING'') (Inr (PDict [(''ResponseMetadata'', PDict [])])))
       None (Some ''s3://bucket/vocabulary_test_18.txt'') world0
     = (Inl (KeyError (KStr ''VocabularyName'')),
        \<lparr> trace =
            [CreateVocabulary
               [(''VocabularyName'', PStr ''vocabulary_test_18''), (''LanguageCode'', PStr ''en-US''),
                (''VocabularyFileUri'', PStr ''s3://bucket/vocabulary_test_18.txt'')],
             Log INFO (PStr ''Couldn't create custom vocabulary %s.'')
               [PStr ''vocabulary_test_18'']],
          downloads = 0, polls = 0 \<rparr>)
   \<and> create_vocabulary ''vocabulary_test_18'' ''en-US''
       (scripted_client [] (PStr ''PENDING'')
          (Inl (ExtException ''An error occurred (ConflictException) when calling the CreateVocabulary operation: The requested vocabulary name already exists.'')))
       None None world0
     = (Inl (External (ExtException ''An error occurred (ConflictException) when calling the CreateVocabulary operation: The requested vocabulary name already exists.'')),
        \<lparr> trace =
            [CreateVocabulary
               [(''VocabularyName'', PStr ''vocabulary_test_18''), (''LanguageCode'', PStr ''en-US'')],
             Log INFO (PStr ''Couldn't create custom vocabulary %s.'')
               [PStr ''vocabulary_test_18'']],
          downloads = 0, polls = 0 \<rparr>)"
proof -
  let ?ok = "PDict [(''VocabularyName'', PStr ''vocabulary_test_18''),
                    (''VocabularyState'', PStr ''PENDING'')]"
  let ?bare = "PDict [(''ResponseMetadata'', PDict [])]"
  let ?exn = "ExtException ''An error occurred (ConflictException) when calling the CreateVocabulary operation: The requested vocabulary name already exists.''"
  have a: "create_vocabulary ''vocabulary_test_18'' ''en-US''
             (scripted_client [] (PStr ''PENDING'') (Inr ?ok))
             (Some [''Mackie'', ''Cathy'']) (Some ''s3://bucket/vocabulary_test_18.txt'') world0
           = (Inr ?ok,
              world0\<lparr>trace := trace world0 @
                [CreateVocabulary
                   [(''VocabularyName'', PStr ''vocabulary_test_18''),
                    (''LanguageCode'', PStr ''en-US''),
                    (''Phrases'', PList [PStr ''Mackie'', PStr ''Cathy''])],
                 Log INFO (PStr ''Created custom vocabulary %s.'')
                   [PStr ''vocabulary_test_18'']]\<rparr>)"
    using create_vocabulary_outcomes
      [of "Some [''Mackie'', ''Cathy'']" "''vocabulary_test_18''" "''en-US''"
          "Some ''s3://bucket/vocabulary_test_18.txt''"
          "scripted_client [] (PStr ''PENDING'') (Inr ?ok)" world0]
    by (simp add: scripted_client_def)
  have b: "create_vocabulary ''vocabulary_test_18'' ''en-US''
             (scripted_client [] (PStr ''PENDING'') (Inr ?bare))
             None (Some ''s3://bucket/vocabulary_test_18.txt'') world0
           = (Inl (KeyError (KStr ''VocabularyName'')),
              world0\<lparr>trace := trace world0 @
                [CreateVocabulary
                   [(''VocabularyName'', PStr ''vocabulary_test_18''),
                    (''LanguageCode'', PStr ''en-US''),
                    (''VocabularyFileUri'', PStr ''s3://bucket/vocabulary_test_18.txt'')],
                 Log INFO (PStr ''Couldn't create custom vocabulary %s.'')
                   [PStr ''vocabulary_test_18'']]\<rparr>)"
    using create_vocabulary_outcomes
      [of None "''vocabulary_test_18''" "''en-US''"
          "Some ''s3://bucket/vocabulary_test_18.txt''"
          "scripted_client [] (PStr ''PENDING'') (Inr ?bare)" world0]
    by (simp add: scripted_client_def)
  have c: "create_vocabulary ''vocabulary_test_18'' ''en-US''
             (scripted_client [] (PStr ''PENDING'') (Inl ?exn)) None None world0
           = (Inl (External ?exn),
              world0\<lparr>trace := trace world0 @
                [CreateVocabulary
                   [(''VocabularyName'', PStr ''vocabulary_test_18''),
                    (''LanguageCode'', PStr ''en-US'')],
                 Log INFO (PStr ''Couldn't create custom vocabulary %s.'')
                   [PStr ''vocabulary_test_18'']]\<rparr>)"
    using create_vocabulary_outcomes
      [of None "''vocabulary_test_18''" "''en-US''" None
          "scripted_client [] (PStr ''PENDING'') (Inl ?exn)" world0]
    by (simp add: scripted_client_def)
  from a b c show ?thesis
    by (simp add: world0_def)
qed

end
